theory Spec2Isabelle
  imports Complex_Main "HOL-Library.Char_ord" "HOL-Library.Log_Nat" "HOL-Library.Word"
begin

section \<open>Data model\<close>

text \<open>
  A row of the table \<open>transactions\<close> of \<^verbatim>\<open>storage.py\<close>, and equally a row of a
  pandas chunk. SQLite accepts NULL in each of the five columns (the table declares no
  \<open>NOT NULL\<close>, and a \<open>TEXT PRIMARY KEY\<close> of an ordinary rowid table admits NULL), and
  pandas reads an empty cell as a null value, so every field is an option.
  The timestamp is the text that is stored in the \<open>TEXT\<close> column.
  Amounts are rationals: every finite floating point value is one, and the roundings of
  the conversions to \<open>float32\<close> and of the arithmetic in double precision are written out.
  Infinite values are outside the model.
\<close>

record transaction =
  transaction_id :: "string option"
  user_id :: "int option"
  product_id :: "int option"
  timestamp :: "string option"
  transaction_amount :: "rat option"

text \<open>
  Python exceptions, each with its \<open>str(e)\<close>. \<open>EmptyDataError\<close> and \<open>ParserError\<close>
  are the classes of \<open>pd.errors\<close>; \<open>IntegrityError\<close> and \<open>OperationalError\<close> those of
  \<open>sqlite3\<close>; \<open>OtherException\<close> stands for every other subclass of \<open>Exception\<close>.
\<close>

datatype exc =
    ValueError string
  | EmptyDataError string
  | ParserError string
  | IntegrityError string
  | OperationalError string
  | TypeError string
  | OverflowError string
  | OtherException string

fun str_exc :: "exc \<Rightarrow> string" where
  "str_exc (ValueError m) = m"
| "str_exc (EmptyDataError m) = m"
| "str_exc (ParserError m) = m"
| "str_exc (IntegrityError m) = m"
| "str_exc (OperationalError m) = m"
| "str_exc (TypeError m) = m"
| "str_exc (OverflowError m) = m"
| "str_exc (OtherException m) = m"

text \<open>
  \<open>isinstance(e, ValueError)\<close>, which is what \<open>except ValueError\<close> tests: the two
  pandas classes derive from \<open>ValueError\<close>.
\<close>

fun is_ValueError :: "exc \<Rightarrow> bool" where
  "is_ValueError (ValueError m) = True"
| "is_ValueError (EmptyDataError m) = True"
| "is_ValueError (ParserError m) = True"
| "is_ValueError e = False"

section \<open>Python and SQLite primitives\<close>

text \<open>\<open>str(n)\<close> of an integer: its decimal digits, with a minus sign when negative.\<close>

fun py_str_nat :: "nat \<Rightarrow> string" where
  "py_str_nat n =
     (if n < 10 then [char_of (48 + n)]
      else py_str_nat (n div 10) @ [char_of (48 + n mod 10)])"

declare py_str_nat.simps [simp del]

definition py_str_int :: "int \<Rightarrow> string" where
  "py_str_int i = (if i < 0 then CHR ''-'' # py_str_nat (nat (- i)) else py_str_nat (nat i))"

text \<open>
  \<open>repr(s)\<close> of a string, as it appears inside the \<open>repr\<close> of a list: single quotes,
  unless the string holds a single quote and no double quote; backslash, the chosen
  quote, tab, newline and carriage return are escaped, other control characters are
  written \<open>\xhh\<close>.
\<close>

definition hex_digit :: "nat \<Rightarrow> char" where
  "hex_digit d = (if d < 10 then char_of (48 + d) else char_of (87 + d))"

definition py_repr_char :: "char \<Rightarrow> char \<Rightarrow> string" where
  "py_repr_char q c =
     (let n = (of_char c :: nat) in
      if c = q \<or> n = 92 then [char_of (92::nat), c]
      else if n = 9 then [char_of (92::nat), CHR ''t'']
      else if n = 10 then [char_of (92::nat), CHR ''n'']
      else if n = 13 then [char_of (92::nat), CHR ''r'']
      else if n < 32 \<or> n = 127 then
        [char_of (92::nat), CHR ''x'', hex_digit (n div 16), hex_digit (n mod 16)]
      else [c])"

definition py_repr_str :: "string \<Rightarrow> string" where
  "py_repr_str s =
     (let q = (if char_of (39::nat) \<in> set s \<and> char_of (34::nat) \<notin> set s
               then char_of (34::nat) else char_of (39::nat))
      in q # concat (map (py_repr_char q) s) @ [q])"

fun py_join :: "string \<Rightarrow> string list \<Rightarrow> string" where
  "py_join sep [] = []"
| "py_join sep [x] = x"
| "py_join sep (x # y # ys) = x @ sep @ py_join sep (y # ys)"

definition py_repr_list :: "string list \<Rightarrow> string" where
  "py_repr_list xs = ''['' @ py_join '', '' (map py_repr_str xs) @ '']''"

text \<open>
  Rounding to the nearest integer, an exact tie going to the even neighbour.
\<close>

definition round_half_even :: "rat \<Rightarrow> int" where
  "round_half_even y =
     (let f = \<lfloor>y\<rfloor>; d = y - of_int f
      in if d < 1 / 2 then f else if 1 / 2 < d then f + 1 else if even f then f else f + 1)"

text \<open>
  Binary floating point. \<open>pow2 k\<close> is \<open>2\<close> to the power \<open>k\<close>, \<open>ilog2 x\<close> the binary exponent
  of \<open>x \<noteq> 0\<close>, that is the \<open>e\<close> with \<open>2^e \<le> |x| < 2^(e+1)\<close>. \<open>round_binary p emin x\<close>
  rounds \<open>x\<close> to the nearest number with a significand of \<open>p\<close> bits and an exponent of at
  least \<open>emin\<close> (below it the numbers are subnormal), ties to even, as IEEE 754 does.
  \<open>float32\<close> is the cast of a double to \<open>float32\<close> that \<open>astype\<close> performs, \<open>float64\<close>
  the rounding of every operation in double precision. Overflow to infinity is not
  modelled: \<open>float32\<close> is meant below \<open>2^128\<close> and \<open>float64\<close> below \<open>2^1024\<close>.
\<close>

definition pow2 :: "int \<Rightarrow> rat" where
  "pow2 k = (if 0 \<le> k then 2 ^ nat k else 1 / 2 ^ nat (- k))"

definition ilog2 :: "rat \<Rightarrow> int" where
  "ilog2 x =
     (let (a, b) = quotient_of \<bar>x\<bar>; d = bitlen a - bitlen b
      in if pow2 d \<le> \<bar>x\<bar> then d else d - 1)"

definition round_binary :: "nat \<Rightarrow> int \<Rightarrow> rat \<Rightarrow> rat" where
  "round_binary p emin x =
     (if x = 0 then 0
      else let e = max (ilog2 x) emin; ulp = pow2 (e - int p + 1)
           in of_int (round_half_even (x / ulp)) * ulp)"


definition float64 :: "rat \<Rightarrow> rat" where
  "float64 = round_binary 53 (- 1022)"

text \<open>
  \<open>round(x, 2)\<close> of a Python float: the decimal with two places nearest to \<open>x\<close>, an
  exact tie going to the even neighbour, and then the double nearest to that decimal.
\<close>

definition py_round2 :: "rat \<Rightarrow> rat" where
  "py_round2 x = float64 (of_int (round_half_even (x * 100)) / 100)"


text \<open>
  \<open>s.endswith(suf)\<close>.
\<close>

definition endswith :: "string \<Rightarrow> string \<Rightarrow> bool" where
  "endswith s suf = (length suf \<le> length s \<and> drop (length s - length suf) s = suf)"

text \<open>
  SQLite compares two \<open>TEXT\<close> values of the default collation byte by byte, and a
  proper prefix is smaller: \<open>text_le a b\<close> is \<open>a <= b\<close> in SQL.
\<close>

fun text_le :: "string \<Rightarrow> string \<Rightarrow> bool" where
  "text_le [] b = True"
| "text_le (x # a) [] = False"
| "text_le (x # a) (y # b) =
     (if (of_char x :: nat) < of_char y then True
      else if (of_char y :: nat) < of_char x then False
      else text_le a b)"

section \<open>The sqlite3 connection\<close>

text \<open>
  \<open>committed\<close> is the content of the database file, which every other connection
  sees; \<open>working\<close> is what this connection sees: the file plus the inserts of its open
  transaction. Rows are kept in insertion order.
\<close>

record connection =
  committed :: "transaction list"
  working :: "transaction list"
  is_open :: bool

definition connect :: "transaction list \<Rightarrow> connection" where
  "connect db = \<lparr>committed = db, working = db, is_open = True\<rparr>"

definition commit :: "connection \<Rightarrow> connection" where
  "commit conn = conn\<lparr>committed := working conn\<rparr>"

definition rollback :: "connection \<Rightarrow> connection" where
  "rollback conn = conn\<lparr>working := committed conn\<rparr>"

text \<open>Closing a connection abandons its open transaction.\<close>

definition close :: "connection \<Rightarrow> connection" where
  "close conn = conn\<lparr>working := committed conn, is_open := False\<rparr>"

section \<open>Ingestion: \<open>Database.upload_csv\<close>\<close>

text \<open>
  A chunk is a pandas data frame: its column names and its rows. The rows carry the five
  cells that the code reads after it has checked the column names of the first chunk.
\<close>

record chunk =
  columns :: "string list"
  rows :: "transaction list"

text \<open>
  What the reader returned by \<open>pd.read_csv(file.file, chunksize=CHUNK_SIZE, ...)\<close> does
  each time the loop asks for the next chunk: it yields a frame or raises. A failure
  of \<open>pd.read_csv\<close> itself (a zero-byte file raises \<open>EmptyDataError\<close> there) is a
  \<open>Raise\<close> at the head. The list ends where the reader is exhausted.
\<close>

datatype event = Chunk chunk | Raise exc

definition CHUNK_SIZE :: nat where
  "CHUNK_SIZE = 10000"

text \<open>
  \<open>split_rows n\<close> cuts a list of rows into runs of \<open>n\<close> rows, the last one shorter.
\<close>

function split_rows :: "nat \<Rightarrow> 'a list \<Rightarrow> 'a list list" where
  "split_rows n xs =
     (if n = 0 \<or> xs = [] then [] else take n xs # split_rows n (drop n xs))"
  by pat_completeness auto
termination
  by (relation "measure (\<lambda>(n, xs). length xs)") auto

declare split_rows.simps [simp del]

text \<open>
  \<open>parse_dates=['timestamp']\<close> makes \<open>pd.read_csv\<close> raise this \<open>ValueError\<close> when the
  header has no column of that name.
\<close>

definition parse_dates_message :: string where
  "parse_dates_message =
     ''Missing column provided to '' @ [CHR 0x27] @ ''parse_dates'' @ [CHR 0x27] @ '': ''
       @ [CHR 0x27] @ ''timestamp'' @ [CHR 0x27]"

text \<open>
  \<open>frames header rs\<close> is the reader of a file whose rows, once converted to the dtypes
  of the call, are \<open>rs\<close>: pandas yields them in frames of \<open>CHUNK_SIZE\<close> rows under the
  header's column names, and one frame without rows when the file has the header only.
\<close>

definition frames :: "string list \<Rightarrow> transaction list \<Rightarrow> event list" where
  "frames header rs =
     (if ''timestamp'' \<notin> set header then [Raise (ValueError parse_dates_message)]
      else if rs = [] then [Chunk \<lparr>columns = header, rows = []\<rparr>]
      else map (\<lambda>c. Chunk \<lparr>columns = header, rows = c\<rparr>) (split_rows CHUNK_SIZE rs))"








definition expected_columns :: "string list" where
  "expected_columns =
     [''transaction_id'', ''user_id'', ''product_id'', ''timestamp'', ''transaction_amount'']"

text \<open>\<open>chunk.isnull().any().any()\<close>\<close>

definition isnull_any :: "chunk \<Rightarrow> bool" where
  "isnull_any c =
     (\<exists>r \<in> set (rows c).
        transaction_id r = None \<or> user_id r = None \<or> product_id r = None \<or>
        timestamp r = None \<or> transaction_amount r = None)"

text \<open>\<open>(chunk[col] <= 0).any()\<close>; a comparison with a null cell is false.\<close>

definition nonpositive_any :: "(transaction \<Rightarrow> ('a::{zero,ord}) option) \<Rightarrow> chunk \<Rightarrow> bool" where
  "nonpositive_any col c =
     (\<exists>r \<in> set (rows c). case col r of None \<Rightarrow> False | Some v \<Rightarrow> v \<le> 0)"

text \<open>
  The \<open>INSERT\<close> statements of one \<open>to_sql\<close> call, row by row: the primary key refuses
  a \<open>transaction_id\<close> that the table already holds (NULL keys never collide).
\<close>

fun insert_rows :: "transaction list \<Rightarrow> transaction list \<Rightarrow> exc + transaction list" where
  "insert_rows table [] = Inr table"
| "insert_rows table (r # rs) =
     (if transaction_id r \<noteq> None \<and> transaction_id r \<in> set (map transaction_id table)
      then Inl (IntegrityError ''UNIQUE constraint failed: transactions.transaction_id'')
      else insert_rows (table @ [r]) rs)"

text \<open>
  \<open>chunk.to_sql('transactions', connection, if_exists='append', index=False)\<close> on a
  \<open>sqlite3\<close> connection. pandas runs the inserts of the call inside its own
  \<open>SQLiteDatabase.run_transaction\<close>, which calls \<open>commit()\<close> on the connection when
  the inserts succeed and \<open>rollback()\<close> before re-raising when one fails; a frame
  with no rows inserts nothing. The result is the connection and the exception raised,
  if any.
\<close>

definition to_sql :: "chunk \<Rightarrow> connection \<Rightarrow> connection \<times> exc option" where
  "to_sql c conn =
     (if rows c = [] then (conn, None)
      else case insert_rows (working conn) (rows c) of
             Inl e \<Rightarrow> (rollback conn, Some e)
           | Inr table \<Rightarrow> (commit (conn\<lparr>working := table\<rparr>), None))"

text \<open>
  The \<open>for chunk in chunks\<close> loop with its flag \<open>first_chunk\<close>: the connection when the
  loop ends, and the exception that ended it, if any.
\<close>

fun process_chunks :: "event list \<Rightarrow> bool \<Rightarrow> connection \<Rightarrow> connection \<times> exc option" where
  "process_chunks [] first_chunk conn = (conn, None)"
| "process_chunks (Raise e # chunks) first_chunk conn = (conn, Some e)"
| "process_chunks (Chunk c # chunks) first_chunk conn =
     (if first_chunk \<and> columns c \<noteq> expected_columns then
        (conn, Some (ValueError (''Invalid columns. Expected: '' @ py_repr_list expected_columns
                                  @ '', Got: '' @ py_repr_list (columns c))))
      else if isnull_any c then
        (conn, Some (ValueError ''CSV contains null/empty values''))
      else if nonpositive_any transaction_amount c then
        (conn, Some (ValueError ''Transaction amounts must be positive''))
      else if nonpositive_any user_id c \<or> nonpositive_any product_id c then
        (conn, Some (ValueError ''User ID and Product ID must be positive''))
      else case to_sql c conn of
             (conn', Some e) \<Rightarrow> (conn', Some e)
           | (conn', None) \<Rightarrow> process_chunks chunks False conn')"

record clear_response =
  success :: bool
  message :: string

text \<open>\<open>UploadResponse\<close>: the two fields of \<open>ClearResponse\<close> and two more.\<close>

record upload_response = clear_response +
  rows_processed :: int
  processing_time_seconds :: rat

text \<open>
  \<open>upload_csv\<close>. \<open>db\<close> is the content of \<open>transactions.db\<close> at the call,
  \<open>execute_raises\<close> the exception with which sqlite3 answers the first
  \<open>cursor.execute\<close> (an unexpected failure of the storage engine, such as
  \<open>OperationalError: database is locked\<close>), if it does, \<open>start\<close> and \<open>end_time\<close> the
  two readings of \<open>time.time()\<close>, \<open>chunks\<close> the reader. The result is the connection
  as the call leaves it and what the call raises or returns.
\<close>

definition upload_csv ::
  "transaction list \<Rightarrow> exc option \<Rightarrow> rat \<Rightarrow> rat \<Rightarrow> event list \<Rightarrow> connection \<times> (exc + upload_response)" where
  "upload_csv db execute_raises start end_time chunks =
     (let connection = connect db in
      case execute_raises of
        Some e \<Rightarrow> (connection, Inl e)
      | None \<Rightarrow>
          let rows_before = int (length (working connection)) in
          case process_chunks chunks True connection of
            (conn, None) \<Rightarrow>
              let rows_after = int (length (working conn));
                  rows_inserted = rows_after - rows_before
              in (close (commit conn),
                  Inr \<lparr>success = True, message = ''Transactions uploaded successfully'',
                       rows_processed = rows_inserted,
                       processing_time_seconds = py_round2 (end_time - start)\<rparr>)
          | (conn, Some (EmptyDataError m)) \<Rightarrow>
              (close conn, Inl (ValueError ''CSV file is empty''))
          | (conn, Some (ParserError m)) \<Rightarrow>
              (close conn, Inl (ValueError (''Invalid CSV format: '' @ m)))
          | (conn, Some e) \<Rightarrow>
              (close (rollback conn), Inl (ValueError (''ERROR: '' @ str_exc e))))"

section \<open>Aggregation: \<open>Database.get_summary\<close>\<close>

text \<open>The \<open>WHERE\<close> clause; a comparison with NULL selects nothing.\<close>

definition selected :: "int \<Rightarrow> string \<Rightarrow> string \<Rightarrow> transaction \<Rightarrow> bool" where
  "selected uid start_date end_date r =
     (user_id r = Some uid \<and>
      (case timestamp r of
         None \<Rightarrow> False
       | Some ts \<Rightarrow> text_le start_date ts \<and> text_le ts end_date))"

text \<open>The non-NULL amounts of the selected rows, over which MAX, MIN and AVG range.\<close>

definition selected_amounts :: "int \<Rightarrow> string \<Rightarrow> string \<Rightarrow> transaction list \<Rightarrow> rat list" where
  "selected_amounts uid start_date end_date table =
     List.map_filter transaction_amount (filter (selected uid start_date end_date) table)"

record summary_response =
  resp_user_id :: int
  transaction_count :: int
  max_amount :: rat
  min_amount :: rat
  mean_amount :: rat
  start_date :: string
  end_date :: string

definition not_found_message :: "int \<Rightarrow> string \<Rightarrow> string \<Rightarrow> string" where
  "not_found_message uid sd ed =
     ''No transactions found for user_id '' @ py_str_int uid @ '' between '' @ sd @ '' and '' @ ed"

text \<open>
  \<open>AVG\<close> of SQLite (\<open>sumStep\<close> and \<open>avgFinalize\<close> of \<^verbatim>\<open>func.c\<close>). The amounts are
  added one by one in double precision, with the compensation of Kahan, Babuska and Neumaier:
  \<open>kbn_step\<close> is \<open>kahanBabuskaNeumaierStep\<close>, on the pair of the running sum \<open>rSum\<close> and
  its correction \<open>rErr\<close>. The corrected sum is divided by the count. (The versions of
  SQLite before 3.44 add without the correction; the two sums agree whenever every running
  sum is exact.)
\<close>

definition kbn_step :: "rat \<times> rat \<Rightarrow> rat \<Rightarrow> rat \<times> rat" where
  "kbn_step acc r =
     (let s = fst acc; t = float64 (s + r);
          c = (if \<bar>r\<bar> < \<bar>s\<bar> then float64 (float64 (s - t) + r)
               else float64 (float64 (r - t) + s))
      in (t, float64 (snd acc + c)))"

definition sqlite_avg :: "rat list \<Rightarrow> rat" where
  "sqlite_avg xs =
     (let acc = foldl kbn_step (0, 0) xs
      in float64 (float64 (fst acc + snd acc) / of_nat (length xs)))"

text \<open>
  \<open>get_summary\<close>. sqlite3 binds a Python \<open>int\<close> as a 64-bit integer and raises
  \<open>OverflowError\<close> when it does not fit. The aggregates of no non-NULL amount are NULL,
  and \<open>round(None, 2)\<close> raises \<open>TypeError\<close>.
\<close>

definition get_summary ::
  "transaction list \<Rightarrow> exc option \<Rightarrow> int \<Rightarrow> string \<Rightarrow> string \<Rightarrow> connection \<times> (exc + summary_response)" where
  "get_summary db execute_raises uid sd ed =
     (let connection = connect db in
      case execute_raises of
        Some e \<Rightarrow> (connection, Inl e)
      | None \<Rightarrow>
          if uid < - (2 ^ 63) \<or> 2 ^ 63 \<le> uid then
            (connection, Inl (OverflowError ''Python int too large to convert to SQLite INTEGER''))
          else
          let count = int (length (filter (selected uid sd ed) (working connection)));
              amounts = selected_amounts uid sd ed (working connection);
              connection = close connection
          in if count = 0 then (connection, Inl (ValueError (not_found_message uid sd ed)))
             else case amounts of
                    [] \<Rightarrow> (connection,
                           Inl (TypeError ''type NoneType doesn't define __round__ method''))
                  | a # as \<Rightarrow>
                      (connection,
                       Inr \<lparr>resp_user_id = uid, transaction_count = count,
                            max_amount = fold max as a, min_amount = fold min as a,
                            mean_amount = py_round2 (sqlite_avg amounts),
                            start_date = sd, end_date = ed\<rparr>))"

section \<open>Reset: \<open>Database.clear\<close>\<close>

definition clear :: "transaction list \<Rightarrow> exc option \<Rightarrow> connection \<times> (exc + clear_response)" where
  "clear db execute_raises =
     (let connection = connect db in
      case execute_raises of
        Some e \<Rightarrow> (connection, Inl e)
      | None \<Rightarrow>
          let rows_deleted = length (working connection);
              connection = commit (connection\<lparr>working := []\<rparr>)
          in (close connection,
              Inr \<lparr>success = True,
                   message = py_str_nat rows_deleted @ '' Transactions deleted''\<rparr>))"

section \<open>The upload route of \<open>main.py\<close>\<close>

datatype 'a http = Response 'a | HTTPException nat string

text \<open>
  \<open>upload\<close>: the content of the database file after the request, and the response.
\<close>

definition upload ::
  "transaction list \<Rightarrow> exc option \<Rightarrow> rat \<Rightarrow> rat \<Rightarrow> string \<Rightarrow> event list
     \<Rightarrow> transaction list \<times> upload_response http" where
  "upload db execute_raises start end_time filename chunks =
     (if \<not> endswith filename ''.csv'' then
        (db, HTTPException 400 (''File must be CSV. Got: '' @ filename))
      else case upload_csv db execute_raises start end_time chunks of
             (conn, Inr r) \<Rightarrow> (committed conn, Response r)
           | (conn, Inl e) \<Rightarrow>
               if is_ValueError e
               then (committed conn, HTTPException 400 (''Invalid columns. '' @ str_exc e))
               else (committed conn, HTTPException 500 (''Server error: '' @ str_exc e)))"

section \<open>Sequences of calls\<close>

text \<open>
  A call of one of the three operations of \<open>Database\<close>, with what the environment
  contributes to it; \<open>apply_request\<close> is the content of the database file after the call.
\<close>

datatype request =
    Upload "exc option" rat rat "event list"
  | Summary "exc option" int string string
  | Clear "exc option"

fun apply_request :: "transaction list \<Rightarrow> request \<Rightarrow> transaction list" where
  "apply_request db (Upload execute_raises start end_time chunks) =
     committed (fst (upload_csv db execute_raises start end_time chunks))"
| "apply_request db (Summary execute_raises uid sd ed) =
     committed (fst (get_summary db execute_raises uid sd ed))"
| "apply_request db (Clear execute_raises) = committed (fst (clear db execute_raises))"

section \<open>The properties stated by the specification\<close>

text \<open>
  A well-formed row: no cell is null, and the two identifiers and the amount are
  strictly positive.
\<close>

definition row_valid :: "transaction \<Rightarrow> bool" where
  "row_valid r =
     (transaction_id r \<noteq> None \<and> timestamp r \<noteq> None \<and>
      (case user_id r of None \<Rightarrow> False | Some u \<Rightarrow> 0 < u) \<and>
      (case product_id r of None \<Rightarrow> False | Some p \<Rightarrow> 0 < p) \<and>
      (case transaction_amount r of None \<Rightarrow> False | Some a \<Rightarrow> 0 < a))"

text \<open>
  The invariant of the stored data: every \<open>transaction_id\<close> is unique and every row is
  well-formed.
\<close>

definition store_invariant :: "transaction list \<Rightarrow> bool" where
  "store_invariant db = (distinct (map transaction_id db) \<and> (\<forall>r \<in> set db. row_valid r))"

text \<open>
  The records a query is about, in the specification's words: the \<open>user_id\<close> matches and
  the timestamp lies in \<open>[start_date, end_date]\<close> in the lexicographic order of strings,
  here the order \<open>lexordp_eq\<close> of the library over the order of characters.
\<close>

definition in_range_spec :: "int \<Rightarrow> string \<Rightarrow> string \<Rightarrow> transaction \<Rightarrow> bool" where
  "in_range_spec uid sd ed r =
     (user_id r = Some uid \<and>
      (case timestamp r of None \<Rightarrow> False | Some ts \<Rightarrow> lexordp_eq sd ts \<and> lexordp_eq ts ed))"






text \<open>
  A record stamped on the day \<open>day\<close>: its stored timestamp is \<open>day\<close> followed by a time of
  day.
\<close>

definition stamped_on_day :: "string \<Rightarrow> transaction \<Rightarrow> bool" where
  "stamped_on_day day r =
     (case timestamp r of
        None \<Rightarrow> False
      | Some ts \<Rightarrow> length day < length ts \<and> take (length day) ts = day)"


section \<open>Example data\<close>


definition fixture_rows :: "transaction list" where
  "fixture_rows =
     [\<lparr>transaction_id = Some ''T001'', user_id = Some 42, product_id = Some 100,
       timestamp = Some ''2024-01-15 10:00:00'', transaction_amount = Some (13105889 / 131072)\<rparr>,
      \<lparr>transaction_id = Some ''T002'', user_id = Some 42, product_id = Some 101,
       timestamp = Some ''2024-02-20 11:00:00'', transaction_amount = Some (301 / 2)\<rparr>,
      \<lparr>transaction_id = Some ''T003'', user_id = Some 42, product_id = Some 102,
       timestamp = Some ''2024-03-25 12:00:00'', transaction_amount = Some (301 / 4)\<rparr>,
      \<lparr>transaction_id = Some ''T004'', user_id = Some 43, product_id = Some 103,
       timestamp = Some ''2024-01-10 13:00:00'', transaction_amount = Some 200\<rparr>]"

text \<open>A transaction in the morning of the last day of 2024.\<close>

definition new_years_eve_row :: transaction where
  "new_years_eve_row =
     \<lparr>transaction_id = Some ''T900'', user_id = Some 42, product_id = Some 100,
      timestamp = Some ''2024-12-31 10:00:00'', transaction_amount = Some (101 / 2)\<rparr>"


text \<open>A row whose amount is zero, and the \<open>i\<close>-th of a run of well-formed rows.\<close>

definition zero_amount_row :: transaction where
  "zero_amount_row =
     \<lparr>transaction_id = Some ''T902'', user_id = Some 42, product_id = Some 100,
      timestamp = Some ''2024-01-15 10:00:00'', transaction_amount = Some 0\<rparr>"

definition numbered_row :: "nat \<Rightarrow> transaction" where
  "numbered_row i =
     \<lparr>transaction_id = Some (py_str_nat i), user_id = Some 42, product_id = Some 100,
      timestamp = Some ''2024-01-15 10:00:00'', transaction_amount = Some (13105889 / 131072)\<rparr>"






section \<open>Facts about the model\<close>

subsection \<open>Text order, extrema and rounding\<close>

lemma text_le_lexordp_eq: "text_le a b = lexordp_eq a b"
  by (induction a b rule: text_le.induct) (auto simp: less_char_def)

lemma selected_in_range_spec: "selected uid sd ed = in_range_spec uid sd ed"
  by (rule ext) (simp add: selected_def in_range_spec_def text_le_lexordp_eq split: option.splits)



lemma round_half_even_close: "\<bar>of_int (round_half_even y) - y\<bar> \<le> 1 / 2"
proof -
  define f where "f = \<lfloor>y\<rfloor>"
  define d where "d = y - of_int f"
  have d0: "0 \<le> d" and d1: "d < 1"
    unfolding d_def f_def by linarith+
  define k where "k = round_half_even y"
  have r: "k = (if d < 1 / 2 then f else if 1 / 2 < d then f + 1 else if even f then f else f + 1)"
    unfolding k_def round_half_even_def Let_def d_def f_def ..
  have "\<bar>of_int k - (of_int f + d)\<bar> \<le> 1 / 2"
    unfolding r using d0 d1 by (auto simp: abs_if)
  then show ?thesis
    unfolding k_def d_def by simp
qed




subsection \<open>Validation and inserts\<close>

lemma row_valid_iff:
  "row_valid r =
     (\<not> (transaction_id r = None \<or> user_id r = None \<or> product_id r = None \<or>
         timestamp r = None \<or> transaction_amount r = None) \<and>
      \<not> (case transaction_amount r of None \<Rightarrow> False | Some v \<Rightarrow> v \<le> 0) \<and>
      \<not> (case user_id r of None \<Rightarrow> False | Some v \<Rightarrow> v \<le> 0) \<and>
      \<not> (case product_id r of None \<Rightarrow> False | Some v \<Rightarrow> v \<le> 0))"
  by (cases "transaction_amount r"; cases "user_id r"; cases "product_id r")
     (auto simp add: row_valid_def not_le)

lemma checks_pass_iff:
  "(\<not> isnull_any c \<and> \<not> nonpositive_any transaction_amount c \<and>
    \<not> (nonpositive_any user_id c \<or> nonpositive_any product_id c))
   = (\<forall>r \<in> set (rows c). row_valid r)"
  unfolding isnull_any_def nonpositive_any_def row_valid_iff
  by blast

lemma insert_rows_fresh:
  "distinct (map transaction_id rs) \<Longrightarrow>
   set (map transaction_id rs) \<inter> set (map transaction_id table) = {} \<Longrightarrow>
   insert_rows table rs = Inr (table @ rs)"
  by (induction rs arbitrary: table) auto

lemma insert_rows_invariant:
  "insert_rows table rs = Inr t \<Longrightarrow> \<forall>r \<in> set rs. row_valid r \<Longrightarrow>
   store_invariant table \<Longrightarrow> store_invariant t"
proof (induction rs arbitrary: table)
  case Nil
  then show ?case by simp
next
  case (Cons r rs)
  from Cons.prems(2) have id: "transaction_id r \<noteq> None"
    by (simp add: row_valid_def)
  with Cons.prems(1) have new: "transaction_id r \<notin> set (map transaction_id table)"
    and rest: "insert_rows (table @ [r]) rs = Inr t"
    by (auto split: if_splits)
  have "store_invariant (table @ [r])"
    using Cons.prems(2,3) new by (auto simp: store_invariant_def)
  with Cons.IH[OF rest] Cons.prems(2) show ?case
    by simp
qed

lemma close_commit_eq:
  "close (commit conn) = \<lparr>committed = working conn, working = working conn, is_open = False\<rparr>"
  by (cases conn) (simp add: close_def commit_def)

lemma close_eq:
  "close conn = \<lparr>committed = committed conn, working = committed conn, is_open = False\<rparr>"
  by (cases conn) (simp add: close_def)

lemma to_sql_fresh:
  assumes "distinct (map transaction_id (rows c))"
    and "set (map transaction_id (rows c)) \<inter> set (map transaction_id (working conn)) = {}"
  shows "snd (to_sql c conn) = None"
    and "working (fst (to_sql c conn)) = working conn @ rows c"
    and "rows c \<noteq> [] \<Longrightarrow> committed (fst (to_sql c conn)) = working conn @ rows c"
  using insert_rows_fresh[OF assms]
  by (simp_all add: to_sql_def commit_def)

lemma process_chunks_all_valid:
  assumes "\<forall>c \<in> set cs. columns c = expected_columns \<and> (\<forall>r \<in> set (rows c). row_valid r)"
    and "distinct (map transaction_id (concat (map rows cs)))"
    and "set (map transaction_id (concat (map rows cs))) \<inter>
         set (map transaction_id (working conn)) = {}"
  shows "snd (process_chunks (map Chunk cs) first_chunk conn) = None \<and>
         working (fst (process_chunks (map Chunk cs) first_chunk conn)) =
           working conn @ concat (map rows cs)"
  using assms
proof (induction cs arbitrary: first_chunk conn)
  case Nil
  then show ?case by simp
next
  case (Cons c cs)
  have ok: "\<not> isnull_any c" "\<not> nonpositive_any transaction_amount c"
    "\<not> (nonpositive_any user_id c \<or> nonpositive_any product_id c)"
    using Cons.prems(1) checks_pass_iff[of c] by auto
  have cols: "columns c = expected_columns"
    using Cons.prems(1) by simp
  have d: "distinct (map transaction_id (rows c))"
    and i: "set (map transaction_id (rows c)) \<inter> set (map transaction_id (working conn)) = {}"
    using Cons.prems(2,3) by auto
  obtain conn' where t: "to_sql c conn = (conn', None)" and w: "working conn' = working conn @ rows c"
    using to_sql_fresh(1,2)[OF d i] by (cases "to_sql c conn") auto
  have step: "process_chunks (map Chunk (c # cs)) first_chunk conn =
              process_chunks (map Chunk cs) False conn'"
    using ok cols t by simp
  have "snd (process_chunks (map Chunk cs) False conn') = None \<and>
        working (fst (process_chunks (map Chunk cs) False conn')) =
          working conn' @ concat (map rows cs)"
  proof (rule Cons.IH)
    show "\<forall>c \<in> set cs. columns c = expected_columns \<and> (\<forall>r \<in> set (rows c). row_valid r)"
      using Cons.prems(1) by simp
    show "distinct (map transaction_id (concat (map rows cs)))"
      using Cons.prems(2) by simp
    have ab: "set (map transaction_id (rows c)) \<inter>
              set (map transaction_id (concat (map rows cs))) = {}"
      using Cons.prems(2) by simp
    have abw: "(set (map transaction_id (rows c)) \<union>
                set (map transaction_id (concat (map rows cs)))) \<inter>
               set (map transaction_id (working conn)) = {}"
      using Cons.prems(3) by simp
    show "set (map transaction_id (concat (map rows cs))) \<inter>
          set (map transaction_id (working conn')) = {}"
      unfolding w using ab abw by (simp only: map_append set_append) blast
  qed
  then show ?case
    unfolding step w by simp
qed

subsection \<open>Frames of a file\<close>


lemma split_rows_full:
  assumes "length xs = n" and "0 < n"
  shows "split_rows n (xs @ ys) = xs # split_rows n ys"
proof -
  have "xs @ ys \<noteq> []" using assms by auto
  then show ?thesis
    using assms by (subst split_rows.simps) simp
qed

lemma split_rows_short:
  assumes "xs \<noteq> []" and "length xs \<le> n"
  shows "split_rows n xs = [xs]"
proof -
  have n: "n \<noteq> 0" using assms by (cases xs) auto
  have e: "split_rows n [] = []" by (subst split_rows.simps) simp
  show ?thesis
    using assms n e by (subst split_rows.simps) simp
qed

lemma timestamp_expected: "''timestamp'' \<in> set expected_columns"
  by (simp add: expected_columns_def)





subsection \<open>The invariant of the store\<close>

lemma to_sql_invariant:
  assumes "\<forall>r \<in> set (rows c). row_valid r"
    and "store_invariant (committed conn)" and "store_invariant (working conn)"
  shows "store_invariant (committed (fst (to_sql c conn))) \<and>
         store_invariant (working (fst (to_sql c conn)))"
proof (cases "insert_rows (working conn) (rows c)")
  case (Inl e)
  then show ?thesis
    using assms(2,3) by (simp add: to_sql_def rollback_def)
next
  case (Inr t)
  have "store_invariant t"
    by (rule insert_rows_invariant[OF Inr assms(1) assms(3)])
  then show ?thesis
    using Inr assms(2,3) by (simp add: to_sql_def commit_def)
qed

lemma process_chunks_invariant:
  "store_invariant (committed conn) \<Longrightarrow> store_invariant (working conn) \<Longrightarrow>
   store_invariant (committed (fst (process_chunks evs first_chunk conn))) \<and>
   store_invariant (working (fst (process_chunks evs first_chunk conn)))"
proof (induction evs arbitrary: first_chunk conn)
  case Nil
  then show ?case by simp
next
  case (Cons ev evs)
  show ?case
  proof (cases ev)
    case (Raise e)
    then show ?thesis using Cons.prems by simp
  next
    case (Chunk c)
    show ?thesis
    proof (cases "\<forall>r \<in> set (rows c). row_valid r")
      case False
      then have "isnull_any c \<or> nonpositive_any transaction_amount c \<or>
                 nonpositive_any user_id c \<or> nonpositive_any product_id c"
        using checks_pass_iff[of c] by blast
      then show ?thesis
        using Chunk Cons.prems by auto
    next
      case True
      note inv = to_sql_invariant[OF True Cons.prems]
      have ok: "\<not> isnull_any c" "\<not> nonpositive_any transaction_amount c"
        "\<not> (nonpositive_any user_id c \<or> nonpositive_any product_id c)"
        using True checks_pass_iff[of c] by auto
      show ?thesis
      proof (cases "first_chunk \<and> columns c \<noteq> expected_columns")
        case True
        then show ?thesis using Chunk Cons.prems by simp
      next
        case False
        obtain conn' r where t: "to_sql c conn = (conn', r)"
          by (cases "to_sql c conn")
        show ?thesis
        proof (cases r)
          case None
          have "process_chunks (ev # evs) first_chunk conn = process_chunks evs False conn'"
            using Chunk ok t None by (simp add: False)
          moreover have "store_invariant (committed conn')" "store_invariant (working conn')"
            using inv t by simp_all
          ultimately show ?thesis
            using Cons.IH[of conn' False] by simp
        next
          case (Some e)
          have "process_chunks (ev # evs) first_chunk conn = (conn', Some e)"
            using Chunk ok t Some by (simp add: False)
          then show ?thesis
            using inv t by simp
        qed
      qed
    qed
  qed
qed

lemma upload_csv_committed_cases:
  "committed (fst (upload_csv db None start end_time evs)) =
     (let p = process_chunks evs True (connect db)
      in if snd p = None then working (fst p) else committed (fst p))"
proof -
  obtain conn r where p: "process_chunks evs True (connect db) = (conn, r)"
    by (cases "process_chunks evs True (connect db)")
  show ?thesis
  proof (cases r)
    case None
    then show ?thesis
      by (simp add: upload_csv_def p close_def commit_def)
  next
    case (Some e)
    then show ?thesis
      by (cases e) (simp_all add: upload_csv_def p close_def rollback_def)
  qed
qed

lemma upload_csv_invariant:
  assumes "store_invariant db"
  shows "store_invariant (committed (fst (upload_csv db execute_raises start end_time evs)))"
proof (cases execute_raises)
  case (Some e)
  then show ?thesis
    using assms by (simp add: upload_csv_def connect_def)
next
  case None
  have "store_invariant (committed (connect db))" "store_invariant (working (connect db))"
    using assms by (simp_all add: connect_def)
  from process_chunks_invariant[OF this, of evs True] show ?thesis
    unfolding None upload_csv_committed_cases by (simp add: Let_def)
qed

lemma get_summary_committed: "committed (fst (get_summary db execute_raises uid sd ed)) = db"
  by (cases execute_raises)
     (simp_all add: get_summary_def connect_def close_def Let_def split: list.splits)

lemma clear_committed:
  "committed (fst (clear db execute_raises)) = (if execute_raises = None then [] else db)"
  by (cases execute_raises) (simp_all add: clear_def connect_def close_def commit_def)

lemma store_invariant_Nil: "store_invariant []"
  by (simp add: store_invariant_def)

lemma apply_request_invariant: "store_invariant db \<Longrightarrow> store_invariant (apply_request db q)"
  by (cases q)
     (simp_all add: upload_csv_invariant get_summary_committed clear_committed store_invariant_Nil)

subsection \<open>Uploads of well-formed files\<close>

lemma fixture_rows_valid: "\<forall>r \<in> set fixture_rows. row_valid r"
  by (simp add: fixture_rows_def row_valid_def)

lemma fixture_rows_distinct: "distinct (map transaction_id fixture_rows)"
  by (simp add: fixture_rows_def)

lemma upload_csv_chunks_valid:
  assumes "\<forall>c \<in> set cs. columns c = expected_columns \<and> (\<forall>r \<in> set (rows c). row_valid r)"
    and "distinct (map transaction_id (concat (map rows cs)))"
    and "set (map transaction_id (concat (map rows cs))) \<inter> set (map transaction_id db) = {}"
  shows "upload_csv db None start end_time (map Chunk cs) =
           (\<lparr>committed = db @ concat (map rows cs), working = db @ concat (map rows cs),
             is_open = False\<rparr>,
            Inr \<lparr>success = True, message = ''Transactions uploaded successfully'',
                 rows_processed = int (length (concat (map rows cs))),
                 processing_time_seconds = py_round2 (end_time - start)\<rparr>)"
proof -
  have w: "working (connect db) = db"
    by (simp add: connect_def)
  have "snd (process_chunks (map Chunk cs) True (connect db)) = None \<and>
        working (fst (process_chunks (map Chunk cs) True (connect db))) =
          working (connect db) @ concat (map rows cs)"
    by (rule process_chunks_all_valid[OF assms(1,2)]) (simp only: w assms(3))
  then obtain conn where p: "process_chunks (map Chunk cs) True (connect db) = (conn, None)"
    and wc: "working conn = db @ concat (map rows cs)"
    unfolding w by (cases "process_chunks (map Chunk cs) True (connect db)") auto
  show ?thesis
    by (simp add: upload_csv_def p w wc close_commit_eq)
qed

lemma upload_csv_single_chunk:
  assumes "\<forall>r \<in> set rs. row_valid r" and "distinct (map transaction_id rs)"
    and "set (map transaction_id rs) \<inter> set (map transaction_id db) = {}"
  shows "upload_csv db None start end_time [Chunk \<lparr>columns = expected_columns, rows = rs\<rparr>] =
           (\<lparr>committed = db @ rs, working = db @ rs, is_open = False\<rparr>,
            Inr \<lparr>success = True, message = ''Transactions uploaded successfully'',
                 rows_processed = int (length rs),
                 processing_time_seconds = py_round2 (end_time - start)\<rparr>)"
  using upload_csv_chunks_valid[of "[\<lparr>columns = expected_columns, rows = rs\<rparr>]" db start end_time]
    assms
  by simp

lemma upload_csv_header_only:
  "upload_csv db None start end_time (frames expected_columns []) =
     (\<lparr>committed = db, working = db, is_open = False\<rparr>,
      Inr \<lparr>success = True, message = ''Transactions uploaded successfully'',
           rows_processed = 0, processing_time_seconds = py_round2 (end_time - start)\<rparr>)"
  using upload_csv_single_chunk[of "[]" db start end_time]
  by (simp add: frames_def timestamp_expected)

lemma connect_sel:
  "committed (connect db) = db" "working (connect db) = db" "is_open (connect db) = True"
  by (simp_all add: connect_def)

lemma py_round2_1: "py_round2 1 = 1"
  by code_simp

lemma fixture_rows_invariant: "store_invariant fixture_rows"
  using fixture_rows_valid fixture_rows_distinct by (simp add: store_invariant_def)

lemma py_str_int_42: "py_str_int 42 = ''42''"
  by code_simp

lemma py_str_nat_0: "py_str_nat 0 = ''0''"
  by code_simp

lemma py_str_nat_4: "py_str_nat 4 = ''4''"
  by code_simp

lemma upload_csv_exhausted:
  "upload_csv db None start end_time [] =
     (\<lparr>committed = db, working = db, is_open = False\<rparr>,
      Inr \<lparr>success = True, message = ''Transactions uploaded successfully'',
           rows_processed = 0, processing_time_seconds = py_round2 (end_time - start)\<rparr>)"
  by (simp add: upload_csv_def connect_def close_def commit_def)

subsection \<open>Queries\<close>




subsection \<open>Connections and failures\<close>

text \<open>
  When the first statement of a call succeeds, the call closes its connection, on every
  path.
\<close>

lemma get_summary_closes:
  "- (2 ^ 63) \<le> uid \<Longrightarrow> uid < 2 ^ 63 \<Longrightarrow> \<not> is_open (fst (get_summary db None uid sd ed))"
  by (simp add: get_summary_def connect_def close_def Let_def split: list.splits)

lemma upload_csv_closes: "\<not> is_open (fst (upload_csv db None start end_time chunks))"
proof -
  obtain conn r where p: "process_chunks chunks True (connect db) = (conn, r)"
    by (cases "process_chunks chunks True (connect db)")
  show ?thesis
  proof (cases r)
    case None
    then show ?thesis by (simp add: upload_csv_def p close_def)
  next
    case (Some e)
    then show ?thesis by (cases e) (simp_all add: upload_csv_def p close_def)
  qed
qed

text \<open>
  Whatever ends the loop, the call raises \<open>ValueError\<close>.
\<close>

lemma upload_csv_raises_ValueError:
  "snd (upload_csv db None start end_time chunks) = Inl e \<Longrightarrow> \<exists>m. e = ValueError m"
proof -
  assume a: "snd (upload_csv db None start end_time chunks) = Inl e"
  obtain conn r where p: "process_chunks chunks True (connect db) = (conn, r)"
    by (cases "process_chunks chunks True (connect db)")
  show ?thesis
  proof (cases r)
    case None
    with a show ?thesis by (simp add: upload_csv_def p)
  next
    case (Some x)
    with a show ?thesis by (cases x) (auto simp add: upload_csv_def p)
  qed
qed

lemma frames_short:
  "''timestamp'' \<in> set header \<Longrightarrow> rs \<noteq> [] \<Longrightarrow> length rs \<le> CHUNK_SIZE \<Longrightarrow>
   frames header rs = [Chunk \<lparr>columns = header, rows = rs\<rparr>]"
  by (simp add: frames_def split_rows_short)

lemma rollback_sel:
  "committed (rollback conn) = committed conn" "working (rollback conn) = committed conn"
  "is_open (rollback conn) = is_open conn"
  by (simp_all add: rollback_def)

text \<open>
  An exception of the loop other than the two pandas classes is wrapped after a rollback.
\<close>

lemma upload_csv_wraps_error:
  assumes "process_chunks chunks True (connect db) = (conn, Some e)"
    and "e = ValueError m \<or> e = IntegrityError m \<or> e = OperationalError m \<or>
         e = TypeError m \<or> e = OverflowError m \<or> e = OtherException m"
  shows "upload_csv db None start end_time chunks =
           (\<lparr>committed = committed conn, working = committed conn, is_open = False\<rparr>,
            Inl (ValueError (''ERROR: '' @ m)))"
  using assms(2)
  by (auto simp add: upload_csv_def assms(1) close_eq rollback_sel)

lemma process_chunks_duplicate:
  assumes "columns c = expected_columns" and "\<forall>r \<in> set (rows c). row_valid r"
    and "rows c = r # rs" and "transaction_id r \<in> set (map transaction_id (working conn))"
  shows "process_chunks (Chunk c # chunks) first_chunk conn =
           (rollback conn,
            Some (IntegrityError ''UNIQUE constraint failed: transactions.transaction_id''))"
proof -
  have ok: "\<not> isnull_any c" "\<not> nonpositive_any transaction_amount c"
    "\<not> (nonpositive_any user_id c \<or> nonpositive_any product_id c)"
    using assms(2) checks_pass_iff[of c] by auto
  have "transaction_id r \<noteq> None"
    using assms(2,3) by (simp add: row_valid_def)
  then have "to_sql c conn =
    (rollback conn, Some (IntegrityError ''UNIQUE constraint failed: transactions.transaction_id''))"
    using assms(3,4) by (simp add: to_sql_def)
  then show ?thesis
    using ok assms(1) by simp
qed

lemma upload_csv_fixture_twice:
  "upload_csv fixture_rows None 0 1 (frames expected_columns fixture_rows) =
     (\<lparr>committed = fixture_rows, working = fixture_rows, is_open = False\<rparr>,
      Inl (ValueError ''ERROR: UNIQUE constraint failed: transactions.transaction_id''))"
proof -
  have f: "frames expected_columns fixture_rows =
           [Chunk \<lparr>columns = expected_columns, rows = fixture_rows\<rparr>]"
    by (rule frames_short[OF timestamp_expected]) (simp_all add: fixture_rows_def CHUNK_SIZE_def)
  obtain r rs where rr: "fixture_rows = r # rs"
    by (simp add: fixture_rows_def)
  then have "r \<in> set fixture_rows"
    by (metis list.set_intros(1))
  then have "transaction_id r \<in> set (map transaction_id (working (connect fixture_rows)))"
    by (simp add: connect_sel)
  from process_chunks_duplicate[OF _ _ _ this, of "\<lparr>columns = expected_columns, rows = fixture_rows\<rparr>" rs "[]" True]
  have p: "process_chunks (frames expected_columns fixture_rows) True (connect fixture_rows) =
           (rollback (connect fixture_rows),
            Some (IntegrityError ''UNIQUE constraint failed: transactions.transaction_id''))"
    using fixture_rows_valid rr by (simp add: f)
  show ?thesis
    using upload_csv_wraps_error[OF p, of "''UNIQUE constraint failed: transactions.transaction_id''" 0 1]
    by (simp add: rollback_sel connect_sel)
qed

subsection \<open>Numbered rows\<close>

text \<open>
  \<open>py_str_nat\<close> is injective: the digits determine the number.
\<close>

lemma of_char_digit: "d < 10 \<Longrightarrow> (of_char (char_of (48 + d :: nat)) :: nat) = 48 + d"
  by simp

lemma py_str_nat_value:
  "foldl (\<lambda>a c. 10 * a + (of_char c - 48)) (0::nat) (py_str_nat n) = n"
proof (induction n rule: py_str_nat.induct)
  case (1 n)
  show ?case
  proof (cases "n < 10")
    case True
    then show ?thesis
      by (subst py_str_nat.simps) (simp add: of_char_digit)
  next
    case False
    have d: "n mod 10 < 10" by simp
    from False 1 show ?thesis
      by (subst py_str_nat.simps) (simp add: of_char_digit[OF d])
  qed
qed

lemma py_str_nat_inj: "py_str_nat a = py_str_nat b \<Longrightarrow> a = b"
  by (metis py_str_nat_value)

lemma numbered_rows_distinct: "distinct (map transaction_id (map numbered_row [0..<n]))"
proof -
  have "inj (\<lambda>i. transaction_id (numbered_row i))"
    by (rule injI) (simp add: numbered_row_def py_str_nat_inj)
  then show ?thesis
    by (simp add: distinct_map comp_def inj_on_def)
qed

lemma numbered_rows_valid: "\<forall>r \<in> set (map numbered_row [0..<n]). row_valid r"
  by (simp add: numbered_row_def row_valid_def)

subsection \<open>A chunk that fails a check\<close>

lemma process_chunks_valid_step:
  assumes "columns c = expected_columns" and "\<forall>r \<in> set (rows c). row_valid r"
    and "distinct (map transaction_id (rows c))"
    and "set (map transaction_id (rows c)) \<inter> set (map transaction_id (working conn)) = {}"
  shows "process_chunks (Chunk c # chunks) first_chunk conn =
           process_chunks chunks False (fst (to_sql c conn))"
proof -
  have ok: "\<not> isnull_any c" "\<not> nonpositive_any transaction_amount c"
    "\<not> (nonpositive_any user_id c \<or> nonpositive_any product_id c)"
    using assms(2) checks_pass_iff[of c] by auto
  obtain conn' where t: "to_sql c conn = (conn', None)"
    using to_sql_fresh(1)[OF assms(3,4)] by (cases "to_sql c conn") auto
  show ?thesis
    using ok assms(1) t by simp
qed

text \<open>
  When the first chunk has the expected columns and fails an integrity check, the call fails
  with one of the three integrity messages and the store is unchanged.
\<close>

lemma upload_csv_first_chunk_rejected:
  assumes "columns c = expected_columns" and "\<not> (\<forall>r \<in> set (rows c). row_valid r)"
  shows "\<exists>m \<in> {''CSV contains null/empty values'', ''Transaction amounts must be positive'',
                ''User ID and Product ID must be positive''}.
           upload_csv db None start end_time (Chunk c # chunks) =
             (\<lparr>committed = db, working = db, is_open = False\<rparr>,
              Inl (ValueError (''ERROR: '' @ m)))"
proof -
  have "isnull_any c \<or> nonpositive_any transaction_amount c \<or>
        nonpositive_any user_id c \<or> nonpositive_any product_id c"
    using assms(2) checks_pass_iff[of c] by blast
  then obtain m where
    m: "m \<in> {''CSV contains null/empty values'', ''Transaction amounts must be positive'',
             ''User ID and Product ID must be positive''}"
    and p: "process_chunks (Chunk c # chunks) True (connect db) = (connect db, Some (ValueError m))"
    using assms(1) by (cases "isnull_any c"; cases "nonpositive_any transaction_amount c") auto
  from upload_csv_wraps_error[OF p, of m start end_time]
  have "upload_csv db None start end_time (Chunk c # chunks) =
             (\<lparr>committed = db, working = db, is_open = False\<rparr>,
              Inl (ValueError (''ERROR: '' @ m)))"
    by (simp add: connect_sel)
  with m show ?thesis
    by blast
qed

subsection \<open>The reader\<close>










subsection \<open>Failures of the first chunk\<close>



subsection \<open>The end of the range\<close>

lemma text_le_refl: "text_le a a"
  by (induction a) simp_all

lemma text_le_longer: "\<not> text_le (a @ x # xs) a"
  by (induction a) simp_all

lemma selected_not_stamped: "selected uid sd ed r \<Longrightarrow> \<not> stamped_on_day ed r"
proof
  assume s: "selected uid sd ed r" and d: "stamped_on_day ed r"
  from d obtain ts where ts: "timestamp r = Some ts" and l: "length ed < length ts"
    and t: "take (length ed) ts = ed"
    by (auto simp: stamped_on_day_def split: option.splits)
  from l have "drop (length ed) ts \<noteq> []"
    by simp
  then obtain x xs where "drop (length ed) ts = x # xs"
    by (cases "drop (length ed) ts") auto
  with t have "ts = ed @ x # xs"
    by (metis append_take_drop_id)
  with s ts show False
    by (simp add: selected_def text_le_longer)
qed

lemma filter_selected_not_stamped:
  "filter (\<lambda>r. \<not> stamped_on_day ed r \<and> selected uid sd ed r) db =
   filter (selected uid sd ed) db"
  using selected_not_stamped by (induction db) auto

subsection \<open>The mean\<close>














section \<open>The claims of the specification\<close>

subsection \<open>Claim C1\<close>

text \<open>
  Claim C1 does not hold of the code. A file of \<open>CHUNK_SIZE\<close> well-formed rows followed
  by one row whose amount is not positive is cut into two chunks. The first is written by
  \<open>to_sql\<close>, which commits; the second fails the amount check, and the \<open>rollback\<close> of
  the handler has nothing left to undo: the call fails and the first chunk stays stored.
\<close>

theorem upload_csv_keeps_earlier_chunks:
  assumes "length good = CHUNK_SIZE"
    and "\<forall>r \<in> set good. row_valid r"
    and "distinct (map transaction_id good)"
    and "set (map transaction_id good) \<inter> set (map transaction_id db) = {}"
    and "transaction_id bad \<noteq> None" and "user_id bad \<noteq> None" and "product_id bad \<noteq> None"
    and "timestamp bad \<noteq> None" and "transaction_amount bad = Some a" and "a \<le> 0"
  shows "upload_csv db None start end_time (frames expected_columns (good @ [bad])) =
           (\<lparr>committed = db @ good, working = db @ good, is_open = False\<rparr>,
            Inl (ValueError ''ERROR: Transaction amounts must be positive''))"
proof -
  let ?c1 = "\<lparr>columns = expected_columns, rows = good\<rparr>"
  let ?c2 = "\<lparr>columns = expected_columns, rows = [bad]\<rparr>"
  have n: "0 < CHUNK_SIZE" by (simp add: CHUNK_SIZE_def)
  have g: "good \<noteq> []" using assms(1) n by auto
  have "split_rows CHUNK_SIZE (good @ [bad]) = good # split_rows CHUNK_SIZE [bad]"
    by (rule split_rows_full[OF assms(1) n])
  moreover have "split_rows CHUNK_SIZE [bad] = [[bad]]"
    by (rule split_rows_short) (simp_all add: CHUNK_SIZE_def)
  ultimately have f: "frames expected_columns (good @ [bad]) = [Chunk ?c1, Chunk ?c2]"
    by (simp add: frames_def timestamp_expected)
  have d: "distinct (map transaction_id (rows ?c1))"
    and i: "set (map transaction_id (rows ?c1)) \<inter>
            set (map transaction_id (working (connect db))) = {}"
    using assms(3,4) by (simp_all add: connect_sel)
  define conn where "conn = fst (to_sql ?c1 (connect db))"
  have s1: "process_chunks [Chunk ?c1, Chunk ?c2] True (connect db) =
            process_chunks [Chunk ?c2] False conn"
    unfolding conn_def by (rule process_chunks_valid_step[OF _ _ d i]) (simp_all add: assms(2))
  have cm: "committed conn = db @ good"
    using to_sql_fresh(3)[OF d i] g by (simp add: conn_def connect_sel)
  have nn: "\<not> isnull_any ?c2"
    using assms(5-9) by (simp add: isnull_any_def)
  have np: "nonpositive_any transaction_amount ?c2"
    using assms(9,10) by (simp add: nonpositive_any_def)
  have s2: "process_chunks [Chunk ?c2] False conn =
            (conn, Some (ValueError ''Transaction amounts must be positive''))"
    using nn np by simp
  have p: "process_chunks (frames expected_columns (good @ [bad])) True (connect db) =
           (conn, Some (ValueError ''Transaction amounts must be positive''))"
    by (simp only: f s1 s2)
  show ?thesis
    using upload_csv_wraps_error[OF p, of "''Transaction amounts must be positive''" start end_time]
    by (simp add: cm)
qed

text \<open>
  \<open>CHUNK_SIZE\<close> numbered rows followed by a row of amount zero, into an empty store.
\<close>

theorem upload_csv_keeps_earlier_chunks_witness:
  "upload_csv [] None 0 1
     (frames expected_columns (map numbered_row [0..<CHUNK_SIZE] @ [zero_amount_row])) =
     (\<lparr>committed = map numbered_row [0..<CHUNK_SIZE],
       working = map numbered_row [0..<CHUNK_SIZE], is_open = False\<rparr>,
      Inl (ValueError ''ERROR: Transaction amounts must be positive''))"
proof -
  have l: "length (map numbered_row [0..<CHUNK_SIZE]) = CHUNK_SIZE"
    by simp
  have e: "set (map transaction_id (map numbered_row [0..<CHUNK_SIZE])) \<inter>
           set (map transaction_id []) = {}"
    by simp
  have b: "transaction_id zero_amount_row \<noteq> None" "user_id zero_amount_row \<noteq> None"
    "product_id zero_amount_row \<noteq> None" "timestamp zero_amount_row \<noteq> None"
    "transaction_amount zero_amount_row = Some 0" "(0::rat) \<le> 0"
    by (simp_all add: zero_amount_row_def)
  from upload_csv_keeps_earlier_chunks[OF l numbered_rows_valid numbered_rows_distinct e b,
      of 0 1]
  show ?thesis
    by simp
qed

subsection \<open>Claim C2\<close>

text \<open>
  Claim C2 does not hold of the code. The query compares the stored timestamp, a text with
  a time of day, with \<open>end_date\<close>, a date, byte by byte: a timestamp of the day of
  \<open>end_date\<close> is longer than \<open>end_date\<close> and therefore greater. The records stamped on
  that day are never among the selected ones: every query answers as it does on the store
  without them.
\<close>

theorem end_date_day_excluded:
  "snd (get_summary db None uid sd ed) =
   snd (get_summary (filter (\<lambda>r. \<not> stamped_on_day ed r) db) None uid sd ed)"
  by (simp add: get_summary_def connect_sel selected_amounts_def filter_selected_not_stamped
      Let_def split: list.splits)

text \<open>
  A record stamped at ten in the morning of the last day of 2024 is stored by an upload,
  and the query for its user over that day finds nothing.
\<close>

theorem end_date_day_excluded_witness:
  "upload_csv [] None 0 1 (frames expected_columns [new_years_eve_row]) =
     (\<lparr>committed = [new_years_eve_row], working = [new_years_eve_row], is_open = False\<rparr>,
      Inr \<lparr>success = True, message = ''Transactions uploaded successfully'',
           rows_processed = 1, processing_time_seconds = 1\<rparr>) \<and>
   stamped_on_day ''2024-12-31'' new_years_eve_row \<and>
   snd (get_summary [new_years_eve_row] None 42 ''2024-12-31'' ''2024-12-31'') =
     Inl (ValueError ''No transactions found for user_id 42 between 2024-12-31 and 2024-12-31'')"
proof -
  have v: "\<forall>r \<in> set [new_years_eve_row]. row_valid r"
    by (simp add: new_years_eve_row_def row_valid_def)
  have f: "frames expected_columns [new_years_eve_row] =
           [Chunk \<lparr>columns = expected_columns, rows = [new_years_eve_row]\<rparr>]"
    by (rule frames_short[OF timestamp_expected]) (simp_all add: CHUNK_SIZE_def)
  have u: "upload_csv [] None 0 1 (frames expected_columns [new_years_eve_row]) =
     (\<lparr>committed = [new_years_eve_row], working = [new_years_eve_row], is_open = False\<rparr>,
      Inr \<lparr>success = True, message = ''Transactions uploaded successfully'',
           rows_processed = 1, processing_time_seconds = 1\<rparr>)"
    unfolding f using upload_csv_single_chunk[OF v, of "[]" 0 1] py_round2_1 by simp
  have d: "stamped_on_day ''2024-12-31'' new_years_eve_row"
    by (simp add: stamped_on_day_def new_years_eve_row_def)
  have "snd (get_summary [new_years_eve_row] None 42 ''2024-12-31'' ''2024-12-31'') =
        snd (get_summary [] None 42 ''2024-12-31'' ''2024-12-31'')"
    using end_date_day_excluded[of "[new_years_eve_row]" 42 "''2024-12-31''" "''2024-12-31''"] d
    by simp
  also have "\<dots> =
     Inl (ValueError ''No transactions found for user_id 42 between 2024-12-31 and 2024-12-31'')"
    by (simp add: get_summary_def connect_sel not_found_message_def py_str_int_42)
  finally show ?thesis
    using u d by blast
qed

subsection \<open>Claim C3\<close>

text \<open>
  Claim C3, as amended. For every zero-byte input stream, on which \<open>pd.read_csv\<close>
  raises \<open>EmptyDataError\<close>, ingestion fails with the empty-file error
  \<open>CSV file is empty\<close>, writes nothing and returns no success result. A stream that holds
  the header row and no data row is not an empty file for the code: its ingestion succeeds
  with \<open>rows_processed = 0\<close> and writes nothing.
\<close>

theorem upload_csv_zero_bytes:
  "upload_csv db None start end_time (Raise (EmptyDataError m) # chunks) =
     (\<lparr>committed = db, working = db, is_open = False\<rparr>, Inl (ValueError ''CSV file is empty'')) \<and>
   upload_csv db None start end_time (frames expected_columns []) =
     (\<lparr>committed = db, working = db, is_open = False\<rparr>,
      Inr \<lparr>success = True, message = ''Transactions uploaded successfully'',
           rows_processed = 0, processing_time_seconds = py_round2 (end_time - start)\<rparr>)"
proof
  show "upload_csv db None start end_time (Raise (EmptyDataError m) # chunks) =
     (\<lparr>committed = db, working = db, is_open = False\<rparr>, Inl (ValueError ''CSV file is empty''))"
    by (simp add: upload_csv_def connect_def close_def)
  show "upload_csv db None start end_time (frames expected_columns []) =
     (\<lparr>committed = db, working = db, is_open = False\<rparr>,
      Inr \<lparr>success = True, message = ''Transactions uploaded successfully'',
           rows_processed = 0, processing_time_seconds = py_round2 (end_time - start)\<rparr>)"
    by (rule upload_csv_header_only)
qed

text \<open>
  The zero-byte upload of \<open>test_upload_empty_file\<close>, on the fixture's store.
\<close>

theorem upload_csv_zero_bytes_witness:
  "upload_csv fixture_rows None 0 1 [Raise (EmptyDataError ''No columns to parse from file'')] =
     (\<lparr>committed = fixture_rows, working = fixture_rows, is_open = False\<rparr>,
      Inl (ValueError ''CSV file is empty''))"
  using upload_csv_zero_bytes[of fixture_rows 0 1 "''No columns to parse from file''" "[]"]
  by simp

text \<open>
  Claim C3 as stated fails: a stream with the expected header and no data row, whether
  the reader yields one frame without rows or none at all, is ingested with success.
\<close>

theorem header_only_upload_succeeds:
  "snd (upload_csv [] None 0 1 (frames expected_columns [])) =
     Inr \<lparr>success = True, message = ''Transactions uploaded successfully'',
          rows_processed = 0, processing_time_seconds = 1\<rparr> \<and>
   snd (upload_csv [] None 0 1 []) =
     Inr \<lparr>success = True, message = ''Transactions uploaded successfully'',
          rows_processed = 0, processing_time_seconds = 1\<rparr>"
  using upload_csv_header_only[of "[]" 0 1] upload_csv_exhausted[of "[]" 0 1]
    py_round2_1
  by simp

subsection \<open>Claim C4\<close>




subsection \<open>Claim C5\<close>




subsection \<open>Claim C6\<close>

text \<open>
  Claim C6. Every call of ingestion, query or reset takes a store that satisfies the
  invariant (unique \<open>transaction_id\<close>, no null field, strictly positive \<open>user_id\<close>,
  \<open>product_id\<close> and \<open>transaction_amount\<close>) to one that satisfies it, whatever the call
  is given and whether it succeeds or fails; so does every sequence of calls.
\<close>

theorem operations_preserve_store_invariant:
  "store_invariant db \<Longrightarrow> store_invariant (foldl apply_request db requests)"
  by (induction requests arbitrary: db) (simp_all add: apply_request_invariant)

text \<open>
  A query, an upload of rows that are already stored, a reset and an upload, from the
  fixture.
\<close>

theorem operations_preserve_store_invariant_witness:
  "store_invariant fixture_rows \<and>
   store_invariant (foldl apply_request fixture_rows
     [Summary None 42 ''2024-01-01'' ''2024-12-31'',
      Upload None 0 1 (frames expected_columns fixture_rows),
      Clear None,
      Upload None 0 1 (frames expected_columns fixture_rows)])"
  using fixture_rows_invariant operations_preserve_store_invariant[OF fixture_rows_invariant]
  by blast

subsection \<open>Claim C7\<close>




subsection \<open>Claim C8\<close>

text \<open>
  Claim C8 does not hold of the code. When the storage engine answers the first
  \<open>cursor.execute\<close> of a call with an exception, \<open>get_summary\<close>, which has no
  \<open>finally\<close>, and \<open>upload_csv\<close>, whose first statement stands before its \<open>try\<close>,
  let the exception through and leave the connection open.
\<close>

theorem connection_left_open_on_backend_error:
  "get_summary db (Some e) uid sd ed =
     (\<lparr>committed = db, working = db, is_open = True\<rparr>, Inl e) \<and>
   upload_csv db (Some e) start end_time chunks =
     (\<lparr>committed = db, working = db, is_open = True\<rparr>, Inl e)"
  by (simp add: get_summary_def upload_csv_def connect_def)

text \<open>
  Both calls when the database is locked.
\<close>

theorem connection_left_open_on_backend_error_witness:
  "is_open (fst (get_summary fixture_rows (Some (OperationalError ''database is locked'')) 42
                   ''2024-01-01'' ''2024-12-31'')) \<and>
   is_open (fst (upload_csv fixture_rows (Some (OperationalError ''database is locked'')) 0 1 []))"
  using connection_left_open_on_backend_error[of fixture_rows
      "OperationalError ''database is locked''" 42 "''2024-01-01''" "''2024-12-31''" 0 1 "[]"]
  by simp

subsection \<open>Claim C9\<close>

text \<open>
  Claim C9, as amended. The reset deletes every stored record and reports the number of rows
  removed in its message; a reset of the store it leaves succeeds and reports zero; and
  every query of the store it leaves, for every date range and every user whose \<open>user_id\<close>
  is an integer of 64 bits, fails with the not-found error.
\<close>

theorem clear_resets:
  "clear db None =
     (\<lparr>committed = [], working = [], is_open = False\<rparr>,
      Inr \<lparr>success = True, message = py_str_nat (length db) @ '' Transactions deleted''\<rparr>) \<and>
   clear (committed (fst (clear db None))) None =
     (\<lparr>committed = [], working = [], is_open = False\<rparr>,
      Inr \<lparr>success = True, message = ''0 Transactions deleted''\<rparr>) \<and>
   (- (2 ^ 63) \<le> uid \<and> uid < 2 ^ 63 \<longrightarrow>
    snd (get_summary (committed (fst (clear db None))) None uid sd ed) =
      Inl (ValueError (not_found_message uid sd ed)))"
proof -
  have c: "clear d None =
     (\<lparr>committed = [], working = [], is_open = False\<rparr>,
      Inr \<lparr>success = True, message = py_str_nat (length d) @ '' Transactions deleted''\<rparr>)" for d
    by (simp add: clear_def connect_def close_def commit_def)
  note z = py_str_nat_0
  have q: "snd (get_summary [] None uid sd ed) = Inl (ValueError (not_found_message uid sd ed))"
    if "- (2 ^ 63) \<le> uid" "uid < 2 ^ 63"
    using that by (simp add: get_summary_def connect_sel)
  show ?thesis
    using c[of db] c[of "[]"] z q by simp
qed

text \<open>
  The reset of the fixture's store, and a query after it.
\<close>

theorem clear_resets_witness:
  "clear fixture_rows None =
     (\<lparr>committed = [], working = [], is_open = False\<rparr>,
      Inr \<lparr>success = True, message = ''4 Transactions deleted''\<rparr>) \<and>
   snd (get_summary (committed (fst (clear fixture_rows None))) None 42 ''2024-01-01'' ''2024-12-31'') =
     Inl (ValueError ''No transactions found for user_id 42 between 2024-01-01 and 2024-12-31'')"
proof -
  have "length fixture_rows = 4"
    by (simp add: fixture_rows_def)
  then have l: "py_str_nat (length fixture_rows) = ''4''"
    by (simp only: py_str_nat_4)
  note t = clear_resets[of fixture_rows 42 "''2024-01-01''" "''2024-12-31''"]
  have c: "clear fixture_rows None =
     (\<lparr>committed = [], working = [], is_open = False\<rparr>,
      Inr \<lparr>success = True, message = ''4 Transactions deleted''\<rparr>)"
    using conjunct1[OF t] by (simp add: l)
  have b: "- (2 ^ 63) \<le> (42::int) \<and> (42::int) < 2 ^ 63"
    by simp
  have q: "snd (get_summary (committed (fst (clear fixture_rows None))) None 42 ''2024-01-01'' ''2024-12-31'') =
     Inl (ValueError ''No transactions found for user_id 42 between 2024-01-01 and 2024-12-31'')"
    using mp[OF conjunct2[OF conjunct2[OF t]] b]
    by (simp add: not_found_message_def py_str_int_42)
  from c q show ?thesis by (rule conjI)
qed

text \<open>
  Claim C9 as stated fails: after a reset, the query for the user \<open>2^63\<close> does not fail
  with the not-found error. The engine refuses to bind the number, the call raises
  \<open>OverflowError\<close>, and its connection stays open.
\<close>

theorem query_after_reset_overflows:
  "get_summary (committed (fst (clear fixture_rows None))) None (2 ^ 63) ''2024-01-01''
     ''2024-12-31'' =
     (\<lparr>committed = [], working = [], is_open = True\<rparr>,
      Inl (OverflowError ''Python int too large to convert to SQLite INTEGER''))"
  by (simp add: get_summary_def clear_def connect_def close_def commit_def)

subsection \<open>Claim C10\<close>

text \<open>
  Claim C10. Whatever ends ingestion once the first statement has run, the call raises
  \<open>ValueError\<close>: a failure of the storage engine inside the loop, such as
  \<open>sqlite3.OperationalError\<close> or \<open>sqlite3.IntegrityError\<close>, leaves the call as
  \<open>ValueError\<close> with the prefix \<open>ERROR:\<close>, like a validation failure, and the route
  \<open>upload\<close> answers every such failure with status 400.
\<close>

theorem upload_failures_are_ValueError:
  "(snd (upload_csv db None start end_time chunks) = Inl e \<longrightarrow>
      (\<exists>m. e = ValueError m) \<and>
      (endswith filename ''.csv'' \<longrightarrow>
         snd (upload db None start end_time filename chunks) =
           HTTPException 400 (''Invalid columns. '' @ str_exc e))) \<and>
   snd (upload_csv db None start end_time (Raise (OperationalError m) # chunks)) =
     Inl (ValueError (''ERROR: '' @ m)) \<and>
   snd (upload_csv db None start end_time (Raise (IntegrityError m) # chunks)) =
     Inl (ValueError (''ERROR: '' @ m))"
proof -
  have "snd (upload db None start end_time filename chunks) =
           HTTPException 400 (''Invalid columns. '' @ str_exc e)"
    if a: "snd (upload_csv db None start end_time chunks) = Inl e" and f: "endswith filename ''.csv''"
  proof -
    from upload_csv_raises_ValueError[OF a] obtain m where e: "e = ValueError m" by blast
    obtain c where u: "upload_csv db None start end_time chunks = (c, Inl (ValueError m))"
      using a e by (cases "upload_csv db None start end_time chunks") auto
    show ?thesis
      using f by (simp add: upload_def u e)
  qed
  moreover have "snd (upload_csv db None start end_time (Raise (OperationalError m) # chunks)) =
     Inl (ValueError (''ERROR: '' @ m))"
    by (simp add: upload_csv_def)
  moreover have "snd (upload_csv db None start end_time (Raise (IntegrityError m) # chunks)) =
     Inl (ValueError (''ERROR: '' @ m))"
    by (simp add: upload_csv_def)
  ultimately show ?thesis
    using upload_csv_raises_ValueError[of db start end_time chunks e] by blast
qed

text \<open>
  An upload of rows that are already stored: the primary key refuses the first insert.
\<close>

theorem upload_failures_are_ValueError_witness:
  "snd (upload_csv fixture_rows None 0 1 (frames expected_columns fixture_rows)) =
     Inl (ValueError ''ERROR: UNIQUE constraint failed: transactions.transaction_id'') \<and>
   snd (upload fixture_rows None 0 1 ''test.csv'' (frames expected_columns fixture_rows)) =
     HTTPException 400
       ''Invalid columns. ERROR: UNIQUE constraint failed: transactions.transaction_id''"
proof -
  let ?e = "ValueError ''ERROR: UNIQUE constraint failed: transactions.transaction_id''"
  have u: "snd (upload_csv fixture_rows None 0 1 (frames expected_columns fixture_rows)) = Inl ?e"
    by (simp add: upload_csv_fixture_twice)
  have f: "endswith ''test.csv'' ''.csv''"
    by (simp add: endswith_def)
  from upload_failures_are_ValueError[of fixture_rows 0 1 "frames expected_columns fixture_rows"
      ?e "''test.csv''"] u f
  have "snd (upload fixture_rows None 0 1 ''test.csv'' (frames expected_columns fixture_rows)) =
     HTTPException 400 (''Invalid columns. '' @ str_exc ?e)"
    by blast
  with u show ?thesis
    by simp
qed

end
